theory Spec2Isabelle
  imports Main
begin

section \<open>The grammar registry and the application shells\<close>

text \<open>
  The repository has two application shells: \<^verbatim>\<open>src/pages/_app.js\<close> and the file kept as
  \<^verbatim>\<open>src/unnamed/part_002\<close>. The top level of each one runs when the module is evaluated:
  \<^verbatim>\<open>
  import Prism from 'prism-react-renderer/prism'
  (typeof global !== "undefined" ? global : window).Prism = Prism
  require("prismjs/components/prism-rust")
  ...
  \<close>
  The imports of style sheets have no part in it. The state these statements touch is
  made explicit: the two ambient namespaces
  (\<open>None\<close> where the identifier is not defined in the execution context), the table
  \<^verbatim>\<open>Prism.languages\<close> of the imported engine, and the module cache of \<^verbatim>\<open>require\<close>.
\<close>

datatype js_error = ReferenceError | TypeError

text \<open>A ruleset is known here only by the module that defines it.\<close>

datatype grammar = RulesetOf string

type_synonym registry = "string \<rightharpoonup> grammar"

datatype jsref = PrismEngine | OtherObject nat

type_synonym namespace = "string \<rightharpoonup> jsref"

record process =
  global_ns :: "namespace option"
  window_ns :: "namespace option"
  languages :: registry
  loaded :: "string set"

text \<open>
  A process in which no module of the repository has been evaluated yet. The entries the
  engine of \<^verbatim>\<open>prism-react-renderer/prism\<close> ships with are not part of the repository:
  they are the parameter \<open>r0\<close>.
\<close>

definition fresh_process :: "namespace option \<Rightarrow> namespace option \<Rightarrow> registry \<Rightarrow> process" where
  "fresh_process g w r0 = \<lparr>global_ns = g, window_ns = w, languages = r0, loaded = {}\<rparr>"

text \<open>
  \<^verbatim>\<open>(typeof global !== "undefined" ? global : window).Prism = Prism\<close>:
  \<^verbatim>\<open>typeof\<close> never throws, so an undefined \<^verbatim>\<open>global\<close> selects \<^verbatim>\<open>window\<close>;
  reading \<^verbatim>\<open>window\<close> where it is not defined throws a ReferenceError, which nothing
  catches.
\<close>

definition assign_Prism :: "process \<Rightarrow> js_error + process" where
  "assign_Prism st =
     (case global_ns st of
        Some g \<Rightarrow> Inr (st\<lparr>global_ns := Some (g(''Prism'' \<mapsto> PrismEngine))\<rparr>)
      | None \<Rightarrow>
          (case window_ns st of
             Some w \<Rightarrow> Inr (st\<lparr>window_ns := Some (w(''Prism'' \<mapsto> PrismEngine))\<rparr>)
           | None \<Rightarrow> Inl ReferenceError))"

text \<open>
  Inside a component module \<^verbatim>\<open>Prism\<close> is a free identifier: it is looked up on the
  global object, the one \<^verbatim>\<open>global\<close> names on the server and \<^verbatim>\<open>window\<close> in the
  browser.
\<close>

definition global_object :: "process \<Rightarrow> namespace option" where
  "global_object st = (case global_ns st of Some g \<Rightarrow> Some g | None \<Rightarrow> window_ns st)"

definition free_Prism :: "process \<Rightarrow> jsref option" where
  "free_Prism st = (case global_object st of None \<Rightarrow> None | Some ns \<Rightarrow> ns ''Prism'')"

definition component_path :: "string \<Rightarrow> string" where
  "component_path lang = ''prismjs/components/prism-'' @ lang"

text \<open>
  Modelled from the spec: the body of a module \<^verbatim>\<open>prismjs/components/prism-<lang>\<close>. The
  prismjs package is a dependency and none of its files is under src/. The spec has the
  shell "register a fixed, hardcoded list of language grammars against" the engine placed in
  the global slot, the registry mapping a language identifier to a ruleset: the component
  of \<open>lang\<close> reads the engine from the global slot and stores its ruleset under \<open>lang\<close>.
  The components of go and c build their ruleset on the entry clike of the table, which
  the engine ships (see \<open>shipped_languages\<close> below); the model does not look at it.
\<close>

definition run_component :: "string \<Rightarrow> process \<Rightarrow> js_error + process" where
  "run_component lang st =
     (case free_Prism st of
        None \<Rightarrow> Inl ReferenceError
      | Some (OtherObject n) \<Rightarrow> Inl TypeError
      | Some PrismEngine \<Rightarrow>
          Inr (st\<lparr>languages := (languages st)(lang \<mapsto> RulesetOf (component_path lang))\<rparr>))"

text \<open>
  \<^verbatim>\<open>require("prismjs/components/prism-<lang>")\<close>: a module already in the cache is not
  evaluated again; a module whose evaluation throws is not kept in the cache.
\<close>

definition require_component :: "string \<Rightarrow> process \<Rightarrow> js_error + process" where
  "require_component lang st =
     (if component_path lang \<in> loaded st then Inr st
      else (case run_component lang st of
              Inl e \<Rightarrow> Inl e
            | Inr st' \<Rightarrow> Inr (st'\<lparr>loaded := insert (component_path lang) (loaded st')\<rparr>)))"

text \<open>A run of \<^verbatim>\<open>require\<close> statements, one after the other; the first throw ends it.\<close>

fun requires :: "string list \<Rightarrow> process \<Rightarrow> js_error + process" where
  "requires [] st = Inr st"
| "requires (l # ls) st =
     (case require_component l st of Inl e \<Rightarrow> Inl e | Inr st' \<Rightarrow> requires ls st')"

text \<open>The components each shell requires, in the order of its source lines.\<close>

definition pages_app_grammars :: "string list" where
  "pages_app_grammars = [''rust'', ''go'', ''c'', ''asm6502'', ''nasm'']"

definition part_002_grammars :: "string list" where
  "part_002_grammars = [''rust'', ''nasm'', ''bash'']"

definition bootstrap :: "string list \<Rightarrow> process \<Rightarrow> js_error + process" where
  "bootstrap ls st = (case assign_Prism st of Inl e \<Rightarrow> Inl e | Inr st' \<Rightarrow> requires ls st')"

text \<open>Lines 4 to 9 of \<^verbatim>\<open>src/pages/_app.js\<close>.\<close>

definition pages_app_top_level :: "process \<Rightarrow> js_error + process" where
  "pages_app_top_level st = bootstrap pages_app_grammars st"

text \<open>Lines 5 to 9 of \<^verbatim>\<open>src/unnamed/part_002\<close>.\<close>

definition part_002_top_level :: "process \<Rightarrow> js_error + process" where
  "part_002_top_level st = bootstrap part_002_grammars st"

text \<open>
  The table the components of a list leave behind when each of them has run: every
  identifier of the list is bound to the ruleset of its own component, every other key
  is as before.
\<close>

definition registered :: "string list \<Rightarrow> registry \<Rightarrow> registry" where
  "registered ls r = (\<lambda>k. if k \<in> set ls then Some (RulesetOf (component_path k)) else r k)"

text \<open>
  The module cache agrees with the table on the components of a list: a component that
  is cached has left its entry in the table.
\<close>

definition cache_consistent :: "string list \<Rightarrow> process \<Rightarrow> bool" where
  "cache_consistent ls st \<longleftrightarrow>
     (\<forall>l \<in> set ls. component_path l \<in> loaded st \<longrightarrow>
        languages st l = Some (RulesetOf (component_path l)))"

subsection \<open>The life of a process\<close>

text \<open>
  The framework imports the shell module and calls its default export \<^verbatim>\<open>Nextra\<close> for
  every page it renders. A module is evaluated at its first import only: later imports
  find it in the cache. \<^verbatim>\<open>Nextra\<close> is a function of its argument alone (see below), so
  a render leaves the process as it is.
\<close>

datatype shell = PagesApp | Part002App

fun shell_grammars :: "shell \<Rightarrow> string list" where
  "shell_grammars PagesApp = pages_app_grammars"
| "shell_grammars Part002App = part_002_grammars"

fun shell_module :: "shell \<Rightarrow> string" where
  "shell_module PagesApp = ''src/pages/_app.js''"
| "shell_module Part002App = ''src/unnamed/part_002''"

fun top_level :: "shell \<Rightarrow> process \<Rightarrow> js_error + process" where
  "top_level PagesApp st = pages_app_top_level st"
| "top_level Part002App st = part_002_top_level st"

definition import_shell :: "shell \<Rightarrow> process \<Rightarrow> js_error + process" where
  "import_shell s st =
     (if shell_module s \<in> loaded st then Inr st
      else (case top_level s st of
              Inl e \<Rightarrow> Inl e
            | Inr st' \<Rightarrow> Inr (st'\<lparr>loaded := insert (shell_module s) (loaded st')\<rparr>)))"

datatype event = ImportShell | RenderPage

fun step :: "shell \<Rightarrow> event \<Rightarrow> process \<Rightarrow> js_error + process" where
  "step s ImportShell st = import_shell s st"
| "step s RenderPage st = Inr st"

fun run :: "shell \<Rightarrow> event list \<Rightarrow> process \<Rightarrow> js_error + process" where
  "run s [] st = Inr st"
| "run s (ev # evs) st = (case step s ev st of Inl e \<Rightarrow> Inl e | Inr st' \<Rightarrow> run s evs st')"

subsection \<open>The render function of the shells\<close>

text \<open>
  \<^verbatim>\<open>
  export default function Nextra({ Component, pageProps }) {
    return <Component {...pageProps} />
  }
  \<close>
  and, in \<^verbatim>\<open>src/unnamed/part_002\<close>, the same element inside a fragment.
  The JSX expression is a call of the element-creation function of the React library
  with the component and the properties of \<^verbatim>\<open>pageProps\<close>. That function is not
  under src/. It copies every property into the props of the element except the four
  names it reserves, \<^verbatim>\<open>key\<close>, \<^verbatim>\<open>ref\<close>, \<^verbatim>\<open>__self\<close> and \<^verbatim>\<open>__source\<close>; the
  values of \<^verbatim>\<open>key\<close> and \<^verbatim>\<open>ref\<close> become the key and the ref of the element (the
  element keeps the string form of the key; the value itself is recorded here).

  The page components of the repository are its Markdown pages, which declare no default
  props: a component is the function from its props to the output nodes it renders to.
  A fragment renders to the output of its children, one after the other.
\<close>

datatype js_value = JSString string | JSNumber int | JSBoolean bool | JSNull

type_synonym props = "string \<rightharpoonup> js_value"

datatype 'o element =
    ComponentElement "props \<Rightarrow> 'o list" props "js_value option" "js_value option"
  | Fragment "'o element list"

definition reserved_props :: "string list" where
  "reserved_props = [''key'', ''ref'', ''__self'', ''__source'']"

definition createElement :: "(props \<Rightarrow> 'o list) \<Rightarrow> props \<Rightarrow> 'o element" where
  "createElement c config =
     ComponentElement c
       (\<lambda>name. if name \<in> set reserved_props then None else config name)
       (config ''key'') (config ''ref'')"

record 'o app_props =
  Component :: "props \<Rightarrow> 'o list"
  pageProps :: props

definition Nextra_pages_app :: "'o app_props \<Rightarrow> 'o element" where
  "Nextra_pages_app a = createElement (Component a) (pageProps a)"

definition Nextra_part_002 :: "'o app_props \<Rightarrow> 'o element" where
  "Nextra_part_002 a = Fragment [createElement (Component a) (pageProps a)]"

fun rendered_output :: "'o element \<Rightarrow> 'o list" where
  "rendered_output (ComponentElement c p k r) = c p"
| "rendered_output (Fragment es) = concat (map rendered_output es)"

section \<open>The site configuration\<close>

text \<open>
  \<^verbatim>\<open>src/unnamed/part_000\<close> exports one object literal. Its JSX values are trees of
  host elements, written here with the attributes in source order. Strings are the bytes
  of the source file (UTF-8).
\<close>

datatype jsx =
    JSXText string
  | JSXNumber int
  | JSXElement string "(string \<times> string) list" "jsx list"
  | JSXFragment "jsx list"

record site_config =
  repository :: string
  titleSuffix :: string
  logo :: jsx
  head :: jsx
  search :: bool
  prevLinks :: bool
  nextLinks :: bool
  footer :: bool
  footerEditOnGitHubLink :: bool
  footerText :: jsx

text \<open>
  \<^verbatim>\<open>new Date()\<close> reads the clock; the source uses the calendar year of the reading, in
  local time, and nothing else of it.
\<close>

datatype js_date = LocalDate int nat nat

fun getFullYear :: "js_date \<Rightarrow> int" where
  "getFullYear (LocalDate y m d) = y"

text \<open>The duck of the title (U+1F986) and the copyright sign (U+00A9).\<close>

definition duck :: string where
  "duck = [CHR 0xF0, CHR 0x9F, CHR 0xA6, CHR 0x86]"

definition copyright_sign :: string where
  "copyright_sign = [CHR 0xC2, CHR 0xA9]"

definition blog_description :: string where
  "blog_description =
     ''A centralized blog for Martin Ombura Jr. Featuring info on Go, Rust, Distributed Systems etc.''"

text \<open>
  The object literal, evaluated when the clock reads \<open>now\<close>. The comment inside the logo
  is an empty expression and adds no child; the text of the footer is on one line, so
  its blanks are kept.
\<close>

definition theme_config :: "js_date \<Rightarrow> site_config" where
  "theme_config now =
     \<lparr>repository = ''https://github.com/martinomburajr'',
      titleSuffix = '' '' @ duck,
      logo = JSXFragment
        [JSXElement ''span'' [(''className'', ''mr-2 font-extrabold hidden md:inline'')]
           [JSXText (''@martinomburajr '' @ duck)]],
      head = JSXFragment
        [JSXElement ''script'' [(''type'', ''text/javascript''), (''src'', ''gtag.js'')] [],
         JSXElement ''meta'' [(''name'', ''msapplication-TileColor''), (''content'', ''#ffffff'')] [],
         JSXElement ''meta'' [(''name'', ''theme-color''), (''content'', ''#ffffff'')] [],
         JSXElement ''meta''
           [(''name'', ''viewport''), (''content'', ''width=device-width, initial-scale=1.0'')] [],
         JSXElement ''meta'' [(''httpEquiv'', ''Content-Language''), (''content'', ''en'')] [],
         JSXElement ''meta'' [(''name'', ''description''), (''content'', blog_description)] [],
         JSXElement ''meta'' [(''name'', ''og:description''), (''content'', blog_description)] [],
         JSXElement ''meta'' [(''name'', ''twitter:card''), (''content'', ''summary_large_image'')] [],
         JSXElement ''meta''
           [(''name'', ''twitter:image''), (''content'', ''https://nextra.vercel.app/og.png'')] [],
         JSXElement ''meta''
           [(''name'', ''twitter:site:domain''),
            (''content'', ''https://twitter.com/martinomburajr'')] [],
         JSXElement ''meta''
           [(''name'', ''twitter:url''), (''content'', ''https://twitter.com/martinomburajr'')] [],
         JSXElement ''meta'' [(''name'', ''og:title''), (''content'', ''Martin Ombura Jr. Blog'')] [],
         JSXElement ''meta''
           [(''name'', ''og:image''), (''content'', ''https://nextra.vercel.app/og.png'')] [],
         JSXElement ''meta''
           [(''name'', ''apple-mobile-web-app-title''), (''content'', ''Nextra'')] [],
         JSXElement ''link''
           [(''rel'', ''apple-touch-icon''), (''sizes'', ''180x180''),
            (''href'', ''/apple-icon-180x180.png'')] [],
         JSXElement ''link''
           [(''rel'', ''icon''), (''type'', ''image/png''), (''sizes'', ''192x192''),
            (''href'', ''/android-icon-192x192.png'')] [],
         JSXElement ''link''
           [(''rel'', ''icon''), (''type'', ''image/png''), (''sizes'', ''32x32''),
            (''href'', ''/favicon-32x32.png'')] [],
         JSXElement ''link''
           [(''rel'', ''icon''), (''type'', ''image/png''), (''sizes'', ''96x96''),
            (''href'', ''/favicon-96x96.png'')] [],
         JSXElement ''link''
           [(''rel'', ''icon''), (''type'', ''image/png''), (''sizes'', ''16x16''),
            (''href'', ''/favicon-16x16.png'')] [],
         JSXElement ''meta''
           [(''name'', ''msapplication-TileImage''), (''content'', ''/ms-icon-144x144.png'')] []],
      search = True,
      prevLinks = True,
      nextLinks = True,
      footer = True,
      footerEditOnGitHubLink = False,
      footerText = JSXFragment
        [JSXText '' '', JSXNumber (getFullYear now),
         JSXText ('' '' @ copyright_sign @ '' @martinomburajr.'')]\<rparr>"

text \<open>
  An importer of the module gets its default export. The object literal is evaluated when
  the module is, at the first import; every later import returns the object in the cache.
  The argument \<open>now\<close> is what the clock reads at the moment of the import.
\<close>

type_synonym config_cache = "site_config option"

definition import_theme_config :: "js_date \<Rightarrow> config_cache \<Rightarrow> site_config \<times> config_cache" where
  "import_theme_config now cache =
     (case cache of
        Some c \<Rightarrow> (c, cache)
      | None \<Rightarrow> (theme_config now, Some (theme_config now)))"

text \<open>The numbers a JSX value embeds, from left to right.\<close>

fun embedded_numbers :: "jsx \<Rightarrow> int list" where
  "embedded_numbers (JSXText t) = []"
| "embedded_numbers (JSXNumber n) = [n]"
| "embedded_numbers (JSXElement tag attrs children) = concat (map embedded_numbers children)"
| "embedded_numbers (JSXFragment children) = concat (map embedded_numbers children)"

section \<open>Content pages and their rendering\<close>

text \<open>
  A content page is a sequence of prose blocks and fenced code blocks, each fence tagged
  with a language identifier (the info string after the opening fence, blanks trimmed).
\<close>

datatype block = Prose string | Fence string string

datatype rendered = Paragraph string | PlainCode string | HighlightedCode grammar string

text \<open>
  Modelled from the spec: the renderer of fenced code blocks. It belongs to the framework
  and the highlighting library, and no file under src/ defines it. The spec has a block
  whose identifier is in the registry render highlighted, by the ruleset registered for
  it, and every other block render "as plain text without error".
\<close>

definition render_block :: "registry \<Rightarrow> block \<Rightarrow> js_error + rendered" where
  "render_block reg b =
     (case b of
        Prose t \<Rightarrow> Inr (Paragraph t)
      | Fence l body \<Rightarrow>
          (case reg l of
             None \<Rightarrow> Inr (PlainCode body)
           | Some g \<Rightarrow> Inr (HighlightedCode g body)))"

text \<open>
  Modelled from the spec: a page renders block by block, in order; an error of a block
  would be the error of the page.
\<close>

fun render_page :: "registry \<Rightarrow> block list \<Rightarrow> js_error + rendered list" where
  "render_page reg [] = Inr []"
| "render_page reg (b # bs) =
     (case render_block reg b of
        Inl e \<Rightarrow> Inl e
      | Inr r \<Rightarrow> (case render_page reg bs of Inl e \<Rightarrow> Inl e | Inr rs \<Rightarrow> Inr (r # rs)))"

section \<open>Concrete processes and pages\<close>

text \<open>
  A server-side process (only \<^verbatim>\<open>global\<close> is defined), a browser-side one (only
  \<^verbatim>\<open>window\<close>) and one with neither, each with an engine that ships no grammar and
  with nothing in the module cache.
\<close>

definition server_process :: process where
  "server_process = fresh_process (Some Map.empty) None Map.empty"

definition browser_process :: process where
  "browser_process = fresh_process None (Some Map.empty) Map.empty"

definition bare_process :: process where
  "bare_process = fresh_process None None Map.empty"

text \<open>
  The engine imported on line 2 of either shell comes with a table of its own, which no
  file under src/ shows. Among its entries are bash, c, clike and go; asm6502 is not one
  of them. \<open>shipped_languages\<close> is the part of that table the shells and the claims touch,
  each entry with the ruleset of the engine's own module, and \<open>shipped_server\<close> is a
  server-side process with it and with nothing in the module cache.
\<close>

definition shipped_languages :: registry where
  "shipped_languages =
     [''bash'' \<mapsto> RulesetOf ''prism-react-renderer/prism'',
      ''c'' \<mapsto> RulesetOf ''prism-react-renderer/prism'',
      ''clike'' \<mapsto> RulesetOf ''prism-react-renderer/prism'',
      ''go'' \<mapsto> RulesetOf ''prism-react-renderer/prism'']"

definition shipped_server :: process where
  "shipped_server = fresh_process (Some Map.empty) None shipped_languages"

text \<open>
  A page component that renders the props \<^verbatim>\<open>title\<close> and \<^verbatim>\<open>key\<close> it is given, and a
  props object with a title and a key.
\<close>

definition title_page :: "props \<Rightarrow> js_value option list" where
  "title_page q = [q ''title'', q ''key'']"

definition keyed_props :: props where
  "keyed_props = [''title'' \<mapsto> JSString ''Rust Generics'', ''key'' \<mapsto> JSString ''k1'']"

text \<open>
  A page with the fence of the spec's first scenario, followed by the heading of line 32
  and the fence of lines 37 to 39 of \<^verbatim>\<open>src/pages/rust/index.md\<close>.
\<close>

definition sample_page :: "block list" where
  "sample_page =
     [Fence ''rust'' ''fn main() {}'',
      Prose ''## Assembly Code'',
      Fence ''bash''
        ''objdump --x86-asm-syntax=att --demangle -d ../target/debug/<your-crate-name> > ./src/non_generics.o'']"

section \<open>Properties of the bootstrap\<close>

lemma component_path_inj: "component_path a = component_path b \<longleftrightarrow> a = b"
  by (simp add: component_path_def)

lemma assign_Prism_free:
  "assign_Prism st = Inr st' \<Longrightarrow> free_Prism st' = Some PrismEngine"
  by (auto simp: assign_Prism_def free_Prism_def global_object_def split: option.splits)

lemma assign_Prism_frame:
  "assign_Prism st = Inr st' \<Longrightarrow> languages st' = languages st \<and> loaded st' = loaded st"
  by (auto simp: assign_Prism_def split: option.splits)

lemma assign_Prism_succeeds:
  "global_ns st \<noteq> None \<or> window_ns st \<noteq> None \<Longrightarrow> \<exists>st'. assign_Prism st = Inr st'"
  by (auto simp: assign_Prism_def split: option.splits)

lemma require_component_ok:
  "free_Prism st = Some PrismEngine \<Longrightarrow>
   require_component l st =
     Inr (if component_path l \<in> loaded st then st
          else st\<lparr>languages := (languages st)(l \<mapsto> RulesetOf (component_path l)),
                  loaded := insert (component_path l) (loaded st)\<rparr>)"
  by (simp add: require_component_def run_component_def)

lemma require_component_free:
  "require_component l st = Inr st' \<Longrightarrow> free_Prism st' = free_Prism st"
  by (auto simp: require_component_def run_component_def free_Prism_def global_object_def
      split: if_splits option.splits jsref.splits)

lemma require_component_frame:
  "require_component l st = Inr st' \<Longrightarrow>
     global_ns st' = global_ns st \<and> window_ns st' = window_ns st"
  by (auto simp: require_component_def run_component_def
      split: if_splits option.splits jsref.splits)

lemma require_component_loaded:
  "require_component l st = Inr st' \<Longrightarrow> loaded st' = insert (component_path l) (loaded st)"
  by (auto simp: require_component_def run_component_def
      split: if_splits option.splits jsref.splits)

lemma require_component_languages:
  "require_component l st = Inr st' \<Longrightarrow>
     languages st' = (if component_path l \<in> loaded st then languages st
                      else (languages st)(l \<mapsto> RulesetOf (component_path l)))"
  by (auto simp: require_component_def run_component_def
      split: if_splits option.splits jsref.splits)

lemma requires_succeeds:
  "free_Prism st = Some PrismEngine \<Longrightarrow> \<exists>st'. requires ls st = Inr st'"
proof (induction ls arbitrary: st)
  case Nil
  show ?case by simp
next
  case (Cons l ls)
  obtain st1 where r: "require_component l st = Inr st1"
    using require_component_ok [OF Cons.prems] by blast
  have "free_Prism st1 = Some PrismEngine"
    using require_component_free [OF r] Cons.prems by simp
  from Cons.IH [OF this] show ?case
    by (simp add: r)
qed

lemma requires_frame:
  "requires ls st = Inr st' \<Longrightarrow>
     global_ns st' = global_ns st \<and> window_ns st' = window_ns st \<and>
     free_Prism st' = free_Prism st \<and>
     loaded st' = component_path ` set ls \<union> loaded st"
proof (induction ls arbitrary: st)
  case Nil
  then show ?case by simp
next
  case (Cons l ls)
  from Cons.prems obtain st1 where r: "require_component l st = Inr st1"
    and rest: "requires ls st1 = Inr st'"
    by (auto split: sum.splits)
  show ?case
    using Cons.IH [OF rest] require_component_frame [OF r] require_component_free [OF r]
      require_component_loaded [OF r]
    by auto
qed

lemma requires_dom_mono:
  "requires ls st = Inr st' \<Longrightarrow> dom (languages st) \<subseteq> dom (languages st')"
proof (induction ls arbitrary: st)
  case Nil
  then show ?case by simp
next
  case (Cons l ls)
  from Cons.prems obtain st1 where r: "require_component l st = Inr st1"
    and rest: "requires ls st1 = Inr st'"
    by (auto split: sum.splits)
  have "dom (languages st) \<subseteq> dom (languages st1)"
    using require_component_languages [OF r] by auto
  with Cons.IH [OF rest] show ?case by blast
qed

lemma requires_languages:
  "requires ls st = Inr st' \<Longrightarrow> cache_consistent ls st \<Longrightarrow>
     languages st' = registered ls (languages st)"
proof (induction ls arbitrary: st)
  case Nil
  then show ?case by (simp add: registered_def)
next
  case (Cons l ls)
  from Cons.prems obtain st1 where r: "require_component l st = Inr st1"
    and rest: "requires ls st1 = Inr st'"
    by (auto split: sum.splits)
  have l1: "languages st1 = (languages st)(l \<mapsto> RulesetOf (component_path l))"
    using require_component_languages [OF r] Cons.prems(2)
    by (auto simp: cache_consistent_def)
  have "cache_consistent ls st1"
    using Cons.prems(2) require_component_loaded [OF r] l1
    by (auto simp: cache_consistent_def component_path_inj)
  from Cons.IH [OF rest this] show ?case
    by (auto simp: registered_def l1)
qed

lemma requires_cached:
  "component_path ` set ls \<subseteq> loaded st \<Longrightarrow> requires ls st = Inr st"
  by (induction ls) (auto simp: require_component_def)


lemma assign_Prism_installed:
  "free_Prism st = Some PrismEngine \<Longrightarrow> assign_Prism st = Inr st"
  by (auto simp: assign_Prism_def free_Prism_def global_object_def fun_upd_idem
      split: option.splits)

lemma registered_idem: "registered ls (registered ls r) = registered ls r"
  by (auto simp: registered_def)

lemma dom_registered: "dom (registered ls r) = dom r \<union> set ls"
  by (auto simp: registered_def dom_def)

lemma cache_consistent_fresh: "loaded st = {} \<Longrightarrow> cache_consistent ls st"
  by (simp add: cache_consistent_def)

lemma bootstrap_succeeds:
  assumes "global_ns st \<noteq> None \<or> window_ns st \<noteq> None"
  shows "\<exists>st'. bootstrap ls st = Inr st'"
proof -
  obtain st1 where a: "assign_Prism st = Inr st1"
    using assign_Prism_succeeds [OF assms] by blast
  from requires_succeeds [OF assign_Prism_free [OF a], of ls] show ?thesis
    by (simp add: bootstrap_def a)
qed

lemma bootstrap_languages:
  assumes "bootstrap ls st = Inr st'" and "cache_consistent ls st"
  shows "languages st' = registered ls (languages st)"
proof -
  from assms(1) obtain st1 where a: "assign_Prism st = Inr st1"
    and r: "requires ls st1 = Inr st'"
    by (auto simp: bootstrap_def split: sum.splits)
  have "cache_consistent ls st1"
    using assms(2) assign_Prism_frame [OF a] by (simp add: cache_consistent_def)
  from requires_languages [OF r this] show ?thesis
    using assign_Prism_frame [OF a] by simp
qed

lemma bootstrap_dom_mono:
  assumes "bootstrap ls st = Inr st'"
  shows "dom (languages st) \<subseteq> dom (languages st')"
proof -
  from assms obtain st1 where a: "assign_Prism st = Inr st1"
    and r: "requires ls st1 = Inr st'"
    by (auto simp: bootstrap_def split: sum.splits)
  show ?thesis
    using requires_dom_mono [OF r] assign_Prism_frame [OF a] by simp
qed

lemma bootstrap_again:
  assumes "bootstrap ls st = Inr st'"
  shows "bootstrap ls st' = Inr st'"
proof -
  from assms obtain st1 where a: "assign_Prism st = Inr st1"
    and r: "requires ls st1 = Inr st'"
    by (auto simp: bootstrap_def split: sum.splits)
  have f: "free_Prism st' = Some PrismEngine"
    using requires_frame [OF r] assign_Prism_free [OF a] by simp
  have "component_path ` set ls \<subseteq> loaded st'"
    using requires_frame [OF r] by simp
  then show ?thesis
    by (simp add: bootstrap_def assign_Prism_installed [OF f] requires_cached)
qed

lemma bootstrap_again_uncached:
  assumes "bootstrap ls st = Inr st'" and "cache_consistent ls st"
  shows "\<exists>st2. bootstrap ls (st'\<lparr>loaded := {}\<rparr>) = Inr st2 \<and> languages st2 = languages st'"
proof -
  from assms(1) obtain st1 where a: "assign_Prism st = Inr st1"
    and r: "requires ls st1 = Inr st'"
    by (auto simp: bootstrap_def split: sum.splits)
  have "free_Prism st' = Some PrismEngine"
    using requires_frame [OF r] assign_Prism_free [OF a] by simp
  then have "global_ns (st'\<lparr>loaded := {}\<rparr>) \<noteq> None \<or> window_ns (st'\<lparr>loaded := {}\<rparr>) \<noteq> None"
    by (auto simp: free_Prism_def global_object_def split: option.splits)
  from bootstrap_succeeds [OF this, of ls] obtain st2
    where b2: "bootstrap ls (st'\<lparr>loaded := {}\<rparr>) = Inr st2" by blast
  have "languages st2 = registered ls (languages st')"
    using bootstrap_languages [OF b2] by (simp add: cache_consistent_def)
  also have "\<dots> = languages st'"
    using bootstrap_languages [OF assms] by (simp add: registered_idem)
  finally show ?thesis using b2 by blast
qed

lemmas bootstrap_eval =
  pages_app_top_level_def part_002_top_level_def bootstrap_def assign_Prism_def
  server_process_def browser_process_def bare_process_def fresh_process_def
  shipped_server_def shipped_languages_def
  require_component_def run_component_def free_Prism_def global_object_def
  pages_app_grammars_def part_002_grammars_def component_path_inj

subsection \<open>The life of a process\<close>

lemma top_level_bootstrap: "top_level s st = bootstrap (shell_grammars s) st"
  by (cases s) (simp_all add: pages_app_top_level_def part_002_top_level_def)

lemma import_shell_dom_mono:
  "import_shell s st = Inr st' \<Longrightarrow> dom (languages st) \<subseteq> dom (languages st')"
  using bootstrap_dom_mono [of "shell_grammars s" st]
  by (auto simp: import_shell_def top_level_bootstrap split: if_splits sum.splits)

lemma import_shell_loaded:
  "import_shell s st = Inr st' \<Longrightarrow> shell_module s \<in> loaded st'"
  by (auto simp: import_shell_def split: if_splits sum.splits)

lemma step_idle: "shell_module s \<in> loaded st \<Longrightarrow> step s ev st = Inr st"
  by (cases ev) (simp_all add: import_shell_def)

lemma run_idle: "shell_module s \<in> loaded st \<Longrightarrow> run s evs st = Inr st"
  by (induction evs) (simp_all add: step_idle)

lemma step_dom_mono:
  "step s ev st = Inr st' \<Longrightarrow> dom (languages st) \<subseteq> dom (languages st')"
  using import_shell_dom_mono [of s st st'] by (cases ev) auto

lemma run_dom_mono:
  "run s evs st = Inr st' \<Longrightarrow> dom (languages st) \<subseteq> dom (languages st')"
proof (induction evs arbitrary: st)
  case Nil
  then show ?case by simp
next
  case (Cons ev evs)
  from Cons.prems obtain st1 where s1: "step s ev st = Inr st1"
    and rest: "run s evs st1 = Inr st'"
    by (auto split: sum.splits)
  from step_dom_mono [OF s1] Cons.IH [OF rest] show ?case by blast
qed

lemma import_shell_first:
  assumes "loaded st = {}" and "global_ns st \<noteq> None \<or> window_ns st \<noteq> None"
  shows "\<exists>st1. import_shell s st = Inr st1
           \<and> languages st1 = registered (shell_grammars s) (languages st)"
proof -
  obtain st' where b: "bootstrap (shell_grammars s) st = Inr st'"
    using bootstrap_succeeds [OF assms(2)] by blast
  have "languages st' = registered (shell_grammars s) (languages st)"
    using bootstrap_languages [OF b cache_consistent_fresh [OF assms(1)]] .
  then show ?thesis
    using b assms(1) by (simp add: import_shell_def top_level_bootstrap)
qed

subsection \<open>The renderer\<close>

lemma render_block_total:
  "\<exists>r. render_block reg b = Inr r"
  by (simp add: render_block_def split: block.splits option.splits)

lemma render_page_map:
  "render_page reg page = Inr (map (\<lambda>b. projr (render_block reg b)) page)"
proof (induction page)
  case Nil
  show ?case by simp
next
  case (Cons b bs)
  obtain r where "render_block reg b = Inr r"
    using render_block_total by blast
  then show ?case
    by (simp add: Cons.IH)
qed

subsection \<open>Element creation\<close>

lemma createElement_props:
  "createElement c p =
     ComponentElement c (\<lambda>name. if name \<in> set reserved_props then None else p name)
       (p ''key'') (p ''ref'')"
  by (simp add: createElement_def)

lemma reserved_props_set:
  "set reserved_props = {''key'', ''ref'', ''__self'', ''__source''}"
  by (simp add: reserved_props_def)

section \<open>The claims\<close>

text \<open>
  C1, as the spec states it: after the bootstrap of the application shell the registry has
  an entry for each of rust, go, c, asm6502, nasm and bash. The shell of
  \<^verbatim>\<open>src/unnamed/part_002\<close> requires the components of rust, nasm and bash only. In a
  server-side process with the engine's table, its top level ends in the state shown:
  go and c are there because the engine ships them, and there is no entry for asm6502.
\<close>

theorem part_002_lacks_asm6502:
  "part_002_top_level shipped_server =
     Inr \<lparr>global_ns = Some [''Prism'' \<mapsto> PrismEngine], window_ns = None,
          languages =
            [''bash'' \<mapsto> RulesetOf (component_path ''bash''),
             ''c'' \<mapsto> RulesetOf ''prism-react-renderer/prism'',
             ''clike'' \<mapsto> RulesetOf ''prism-react-renderer/prism'',
             ''go'' \<mapsto> RulesetOf ''prism-react-renderer/prism'',
             ''rust'' \<mapsto> RulesetOf (component_path ''rust''),
             ''nasm'' \<mapsto> RulesetOf (component_path ''nasm'')],
          loaded =
            {component_path ''bash'', component_path ''nasm'', component_path ''rust''}\<rparr>
   \<and> ''asm6502'' \<notin> dom (languages (projr (part_002_top_level shipped_server)))"
  by (auto simp: bootstrap_eval)

text \<open>
  C1, amended: in a process that starts with an empty module cache and has at least one
  of the two namespaces, the bootstrap of either shell runs to its end. After the one of
  \<^verbatim>\<open>src/pages/_app.js\<close> the registry has an entry for each of rust, go, c, asm6502,
  nasm and bash, provided the engine ships bash: the shell registers the other five.
  After the one of \<^verbatim>\<open>src/unnamed/part_002\<close> the registry has an entry for each of
  rust, go, c, nasm and bash, provided the engine ships go and c: the shell registers
  rust, nasm and bash. That shell registers nothing for asm6502, which is in the registry
  afterwards only if it was there before.
\<close>

theorem bootstrap_registers_list:
  assumes "global_ns st \<noteq> None \<or> window_ns st \<noteq> None" and "loaded st = {}"
  shows "(''bash'' \<in> dom (languages st) \<longrightarrow>
            (\<exists>st'. pages_app_top_level st = Inr st'
               \<and> {''rust'', ''go'', ''c'', ''asm6502'', ''nasm'', ''bash''}
                     \<subseteq> dom (languages st')))
       \<and> (''go'' \<in> dom (languages st) \<and> ''c'' \<in> dom (languages st) \<longrightarrow>
            (\<exists>st'. part_002_top_level st = Inr st'
               \<and> {''rust'', ''go'', ''c'', ''nasm'', ''bash''} \<subseteq> dom (languages st')
               \<and> (''asm6502'' \<in> dom (languages st') \<longleftrightarrow> ''asm6502'' \<in> dom (languages st))))"
proof -
  have gen: "\<exists>st'. bootstrap ls st = Inr st'
               \<and> dom (languages st') = dom (languages st) \<union> set ls" for ls
  proof -
    obtain st' where b: "bootstrap ls st = Inr st'"
      using bootstrap_succeeds [OF assms(1)] by blast
    have "languages st' = registered ls (languages st)"
      using bootstrap_languages [OF b cache_consistent_fresh [OF assms(2)]] .
    then show ?thesis
      using b by (simp add: dom_registered)
  qed
  have pages: "\<exists>st'. pages_app_top_level st = Inr st'
       \<and> {''rust'', ''go'', ''c'', ''asm6502'', ''nasm'', ''bash''} \<subseteq> dom (languages st')"
    if b: "''bash'' \<in> dom (languages st)"
  proof -
    from gen [of pages_app_grammars] obtain st'
      where 1: "pages_app_top_level st = Inr st'"
        and 2: "dom (languages st')
                  = dom (languages st) \<union> {''rust'', ''go'', ''c'', ''asm6502'', ''nasm''}"
      by (auto simp: pages_app_top_level_def pages_app_grammars_def)
    from b have "{''rust'', ''go'', ''c'', ''asm6502'', ''nasm'', ''bash''}
                   \<subseteq> dom (languages st')"
      by (simp add: 2)
    with 1 show ?thesis by blast
  qed
  have part: "\<exists>st'. part_002_top_level st = Inr st'
       \<and> {''rust'', ''go'', ''c'', ''nasm'', ''bash''} \<subseteq> dom (languages st')
       \<and> (''asm6502'' \<in> dom (languages st') \<longleftrightarrow> ''asm6502'' \<in> dom (languages st))"
    if g: "''go'' \<in> dom (languages st)" and c: "''c'' \<in> dom (languages st)"
  proof -
    from gen [of part_002_grammars] obtain st'
      where 1: "part_002_top_level st = Inr st'"
        and 2: "dom (languages st') = dom (languages st) \<union> {''rust'', ''nasm'', ''bash''}"
      by (auto simp: part_002_top_level_def part_002_grammars_def)
    from g c have 3: "{''rust'', ''go'', ''c'', ''nasm'', ''bash''} \<subseteq> dom (languages st')"
      by (simp add: 2)
    have 4: "''asm6502'' \<in> dom (languages st') \<longleftrightarrow> ''asm6502'' \<in> dom (languages st)"
      by (simp add: 2)
    from 1 3 4 show ?thesis by blast
  qed
  from pages part show ?thesis by blast
qed

theorem bootstrap_registers_list_witness:
  "global_ns shipped_server = Some Map.empty \<and> loaded shipped_server = {}
   \<and> ''bash'' \<in> dom (languages shipped_server)
   \<and> ''go'' \<in> dom (languages shipped_server) \<and> ''c'' \<in> dom (languages shipped_server)
   \<and> ''asm6502'' \<notin> dom (languages shipped_server)
   \<and> (\<exists>st'. pages_app_top_level shipped_server = Inr st'
          \<and> {''rust'', ''go'', ''c'', ''asm6502'', ''nasm'', ''bash''} \<subseteq> dom (languages st'))
   \<and> (\<exists>st'. part_002_top_level shipped_server = Inr st'
          \<and> {''rust'', ''go'', ''c'', ''nasm'', ''bash''} \<subseteq> dom (languages st')
          \<and> ''asm6502'' \<notin> dom (languages st'))"
proof -
  have g: "global_ns shipped_server = Some Map.empty"
    and l: "loaded shipped_server = {}"
    by (simp_all add: shipped_server_def fresh_process_def)
  have b: "''bash'' \<in> dom (languages shipped_server)"
    and go: "''go'' \<in> dom (languages shipped_server)"
    and c: "''c'' \<in> dom (languages shipped_server)"
    and a: "''asm6502'' \<notin> dom (languages shipped_server)"
    by (simp_all add: shipped_server_def shipped_languages_def fresh_process_def)
  from g have h: "global_ns shipped_server \<noteq> None \<or> window_ns shipped_server \<noteq> None"
    by simp
  note t = bootstrap_registers_list [OF h l]
  have p1: "\<exists>st'. pages_app_top_level shipped_server = Inr st'
          \<and> {''rust'', ''go'', ''c'', ''asm6502'', ''nasm'', ''bash''} \<subseteq> dom (languages st')"
    using t [THEN conjunct1, THEN mp, OF b] .
  from t [THEN conjunct2, THEN mp, OF conjI [OF go c]] obtain st'
    where 1: "part_002_top_level shipped_server = Inr st'"
      and 2: "{''rust'', ''go'', ''c'', ''nasm'', ''bash''} \<subseteq> dom (languages st')"
      and 3: "''asm6502'' \<in> dom (languages st') \<longleftrightarrow> ''asm6502'' \<in> dom (languages shipped_server)"
    by blast
  from 3 a have 4: "''asm6502'' \<notin> dom (languages st')"
    by blast
  from 1 2 4 have p2: "\<exists>st'. part_002_top_level shipped_server = Inr st'
          \<and> {''rust'', ''go'', ''c'', ''nasm'', ''bash''} \<subseteq> dom (languages st')
          \<and> ''asm6502'' \<notin> dom (languages st')"
    by blast
  from g l b go c a p1 p2 show ?thesis
    by (intro conjI)
qed

text \<open>
  C2: rendering a content page never fails, whatever the registry holds at render time. A
  fenced block whose language identifier has no entry in the registry comes out as plain
  text, its body unchanged; a block whose identifier has an entry comes out highlighted
  by the ruleset registered for it. There is one output per block of the page.
\<close>

theorem render_page_falls_back:
  "\<exists>out. render_page reg page = Inr out \<and> length out = length page
     \<and> (\<forall>i l body. i < length page \<and> page ! i = Fence l body \<longrightarrow>
           (reg l = None \<longrightarrow> out ! i = PlainCode body)
           \<and> (\<forall>g. reg l = Some g \<longrightarrow> out ! i = HighlightedCode g body))"
  by (auto simp: render_page_map render_block_def)

theorem render_page_falls_back_witness:
  "languages (projr (pages_app_top_level server_process)) ''rust''
     = Some (RulesetOf (component_path ''rust''))
   \<and> languages (projr (pages_app_top_level server_process)) ''bash'' = None
   \<and> sample_page ! 0 = Fence ''rust'' ''fn main() {}''
   \<and> sample_page ! 2 = Fence ''bash''
         ''objdump --x86-asm-syntax=att --demangle -d ../target/debug/<your-crate-name> > ./src/non_generics.o''
   \<and> (\<exists>out. render_page (languages (projr (pages_app_top_level server_process))) sample_page
                = Inr out
          \<and> length out = 3
          \<and> out ! 0 = HighlightedCode (RulesetOf (component_path ''rust'')) ''fn main() {}''
          \<and> out ! 2 = PlainCode
                ''objdump --x86-asm-syntax=att --demangle -d ../target/debug/<your-crate-name> > ./src/non_generics.o'')"
proof -
  let ?reg = "languages (projr (pages_app_top_level server_process))"
  let ?cmd = "''objdump --x86-asm-syntax=att --demangle -d ../target/debug/<your-crate-name> > ./src/non_generics.o''"
  have r: "?reg ''rust'' = Some (RulesetOf (component_path ''rust''))"
    and b: "?reg ''bash'' = None"
    by (simp_all add: bootstrap_eval)
  have p0: "sample_page ! 0 = Fence ''rust'' ''fn main() {}''"
    and p2: "sample_page ! 2 = Fence ''bash'' ?cmd"
    and n: "length sample_page = 3"
    by (simp_all add: sample_page_def)
  from render_page_falls_back [of ?reg sample_page]
  obtain out where o: "render_page ?reg sample_page = Inr out"
    and lo: "length out = length sample_page"
    and f: "\<And>i l body. i < length sample_page \<Longrightarrow> sample_page ! i = Fence l body \<Longrightarrow>
              (?reg l = None \<longrightarrow> out ! i = PlainCode body)
              \<and> (\<forall>g. ?reg l = Some g \<longrightarrow> out ! i = HighlightedCode g body)"
    by blast
  have o0: "out ! 0 = HighlightedCode (RulesetOf (component_path ''rust'')) ''fn main() {}''"
    using f [of 0, OF _ p0] r n by simp
  have o2: "out ! 2 = PlainCode ?cmd"
    using f [of 2, OF _ p2] b n by simp
  from r b p0 p2 o lo n o0 o2 show ?thesis
    by auto
qed

text \<open>
  C3: the bootstrap is idempotent, for \<^verbatim>\<open>src/pages/_app.js\<close> and for the other shell
  alike. Once the top level of the shell has run in a process, running it again in that
  process returns the very same state: the engine reference is already in its slot and
  every component is in the module cache. Even when the module cache is emptied in
  between, so that every component is evaluated a second time, the second run succeeds
  and leaves the registry with exactly the contents the first run left.
\<close>

theorem bootstrap_idempotent:
  assumes "top_level s st = Inr st1" and "loaded st = {}"
  shows "top_level s st1 = Inr st1
       \<and> (\<exists>st2. top_level s (st1\<lparr>loaded := {}\<rparr>) = Inr st2
              \<and> languages st2 = languages st1)"
  using bootstrap_again [of "shell_grammars s" st st1]
    bootstrap_again_uncached [of "shell_grammars s" st st1]
    cache_consistent_fresh [OF assms(2)] assms(1)
  by (simp add: top_level_bootstrap)

theorem bootstrap_idempotent_witness:
  "top_level PagesApp server_process = Inr (projr (top_level PagesApp server_process))
   \<and> loaded server_process = {}
   \<and> top_level PagesApp (projr (top_level PagesApp server_process))
       = Inr (projr (top_level PagesApp server_process))
   \<and> (\<exists>st2. top_level PagesApp ((projr (top_level PagesApp server_process))\<lparr>loaded := {}\<rparr>)
                = Inr st2
          \<and> languages st2 = languages (projr (top_level PagesApp server_process)))"
proof -
  have h: "top_level PagesApp server_process = Inr (projr (top_level PagesApp server_process))"
    by (simp add: bootstrap_eval)
  have l: "loaded server_process = {}"
    by (simp add: server_process_def fresh_process_def)
  show ?thesis
    using bootstrap_idempotent [OF h l] h l by simp
qed

text \<open>
  C4, as the spec states it: the year in the footer equals the calendar year at render
  time. The footer is part of the object literal, which is evaluated once, when the
  module is: a configuration constructed on 31 December 2021 and read for a render on
  1 January 2022 still carries 2021, while the calendar year of the render is 2022.
\<close>

theorem footer_year_is_stale:
  "embedded_numbers
     (footerText (fst (import_theme_config (LocalDate 2022 0 1)
                         (snd (import_theme_config (LocalDate 2021 11 31) None)))))
     = [2021]
   \<and> getFullYear (LocalDate 2022 0 1) = 2022"
  by (simp add: import_theme_config_def theme_config_def)

text \<open>
  C4, amended: the configuration is the same in every field but the footer text whatever
  the clock reads, and two constructions in the same calendar year give the same record.
  The one number the footer embeds is the calendar year of the clock at the moment the
  configuration is constructed; a read at any later time returns the record as
  constructed, with that year.
\<close>

theorem theme_config_year_of_construction:
  "(theme_config d1)\<lparr>footerText := x\<rparr> = (theme_config d2)\<lparr>footerText := x\<rparr>
   \<and> theme_config (LocalDate y m1 day1) = theme_config (LocalDate y m2 day2)
   \<and> embedded_numbers (footerText (theme_config d)) = [getFullYear d]
   \<and> fst (import_theme_config t (snd (import_theme_config d None))) = theme_config d"
  by (simp add: import_theme_config_def theme_config_def)

text \<open>
  C5: the registry is written once and only grows. The first import of the shell in a
  process with an empty module cache and a namespace runs the bootstrap, which adds the
  entries of the shell's list to the registry. Along any sequence of imports and renders
  no key ever leaves the registry. Once an import of the shell has succeeded, every later
  sequence of imports and renders leaves the whole process state, and so the registry,
  exactly as it is: the bootstrap does not run a second time and nothing else writes.
\<close>

theorem registry_write_once:
  "(loaded st = {} \<and> (global_ns st \<noteq> None \<or> window_ns st \<noteq> None) \<longrightarrow>
      (\<exists>st1. import_shell s st = Inr st1
             \<and> languages st1 = registered (shell_grammars s) (languages st)))
   \<and> (run s evs st = Inr st' \<longrightarrow> dom (languages st) \<subseteq> dom (languages st'))
   \<and> (import_shell s st = Inr st1 \<longrightarrow> run s evs st1 = Inr st1)"
  using import_shell_first [of st s] run_dom_mono [of s evs st st']
    run_idle [OF import_shell_loaded, of s st st1 evs]
  by blast

theorem registry_write_once_witness:
  "loaded server_process = {} \<and> global_ns server_process = Some Map.empty
   \<and> import_shell PagesApp server_process = Inr (projr (import_shell PagesApp server_process))
   \<and> languages (projr (import_shell PagesApp server_process))
       = registered pages_app_grammars Map.empty
   \<and> run PagesApp [ImportShell, RenderPage, ImportShell] server_process
       = Inr (projr (import_shell PagesApp server_process))
   \<and> dom (languages server_process)
       \<subseteq> dom (languages (projr (import_shell PagesApp server_process)))
   \<and> run PagesApp [RenderPage, ImportShell, RenderPage]
         (projr (import_shell PagesApp server_process))
       = Inr (projr (import_shell PagesApp server_process))"
proof -
  let ?st1 = "projr (import_shell PagesApp server_process)"
  have l: "loaded server_process = {}" and g: "global_ns server_process = Some Map.empty"
    and e: "languages server_process = Map.empty"
    by (simp_all add: server_process_def fresh_process_def)
  have i: "import_shell PagesApp server_process = Inr ?st1"
    by (simp add: import_shell_def bootstrap_eval)
  have r: "run PagesApp [ImportShell, RenderPage, ImportShell] server_process = Inr ?st1"
    by (simp add: import_shell_def bootstrap_eval)
  note w = registry_write_once [of server_process PagesApp
      "[ImportShell, RenderPage, ImportShell]" ?st1 ?st1]
  from w l g obtain st1 where "import_shell PagesApp server_process = Inr st1"
    and "languages st1 = registered (shell_grammars PagesApp) (languages server_process)"
    by auto
  with i e have c1: "languages ?st1 = registered pages_app_grammars Map.empty"
    by simp
  from w r have c2: "dom (languages server_process) \<subseteq> dom (languages ?st1)"
    by blast
  from registry_write_once [of server_process PagesApp
      "[RenderPage, ImportShell, RenderPage]" ?st1 ?st1] i
  have c3: "run PagesApp [RenderPage, ImportShell, RenderPage] ?st1 = Inr ?st1"
    by blast
  from l g i c1 r c2 c3 show ?thesis
    by blast
qed



text \<open>
  C7: reading the configuration is free of effects after its construction. Whatever the
  cache held before a first read at time \<open>t0\<close>, a read at any later time \<open>t1\<close> returns the
  same record and the same cache as that first read did, so it changes nothing; and two
  reads at any two times \<open>t1\<close> and \<open>t2\<close> return the same record. The accessor has no
  failing branch: its result is a record, not an error.
\<close>

theorem import_theme_config_same_record:
  "import_theme_config t1 (snd (import_theme_config t0 cache)) = import_theme_config t0 cache
   \<and> fst (import_theme_config t1 (snd (import_theme_config t0 cache)))
       = fst (import_theme_config t2 (snd (import_theme_config t0 cache)))"
  by (simp add: import_theme_config_def split: option.splits)

text \<open>
  C8: in the exported configuration the toggle \<^verbatim>\<open>footerEditOnGitHubLink\<close> is false
  although the repository URL is set, whenever the object is constructed, and so it is in
  the record an importer reads.
\<close>

theorem edit_link_disabled:
  "footerEditOnGitHubLink (theme_config now) = False
   \<and> repository (theme_config now) = ''https://github.com/martinomburajr''
   \<and> footerEditOnGitHubLink (fst (import_theme_config now None)) = False"
  by (simp add: theme_config_def import_theme_config_def)

text \<open>
  C9, as the claim states it: after the bootstrap of \<^verbatim>\<open>src/pages/_app.js\<close> the registry
  holds exactly the five identifiers rust, go, c, asm6502 and nasm, and no bash. The
  registry is the table of the engine, which has entries before the shell runs: in a
  server-side process with the engine's table the bootstrap succeeds from an empty module
  cache, and afterwards bash and clike are in the registry, bash still with the ruleset the
  engine shipped.
\<close>

theorem pages_app_keeps_shipped_bash:
  "loaded shipped_server = {}
   \<and> pages_app_top_level shipped_server
       = Inr (projr (pages_app_top_level shipped_server))
   \<and> languages (projr (pages_app_top_level shipped_server)) ''bash''
       = Some (RulesetOf ''prism-react-renderer/prism'')
   \<and> ''clike'' \<in> dom (languages (projr (pages_app_top_level shipped_server)))
   \<and> dom (languages (projr (pages_app_top_level shipped_server)))
       \<noteq> {''rust'', ''go'', ''c'', ''asm6502'', ''nasm''}"
proof -
  let ?after = "languages (projr (pages_app_top_level shipped_server))"
  have l: "loaded shipped_server = {}"
    by (simp add: shipped_server_def fresh_process_def)
  have h: "pages_app_top_level shipped_server
             = Inr (projr (pages_app_top_level shipped_server))"
    by (simp add: bootstrap_eval)
  have b: "?after ''bash'' = Some (RulesetOf ''prism-react-renderer/prism'')"
    by (simp add: bootstrap_eval)
  have "?after ''clike'' = Some (RulesetOf ''prism-react-renderer/prism'')"
    by (simp add: bootstrap_eval)
  then have c: "''clike'' \<in> dom ?after"
    by (rule domI)
  have n: "dom ?after \<noteq> {''rust'', ''go'', ''c'', ''asm6502'', ''nasm''}"
  proof
    assume "dom ?after = {''rust'', ''go'', ''c'', ''asm6502'', ''nasm''}"
    moreover from b have "''bash'' \<in> dom ?after"
      by (rule domI)
    ultimately have "''bash'' \<in> {''rust'', ''go'', ''c'', ''asm6502'', ''nasm''}"
      by (rule subst)
    then show False by simp
  qed
  from l h b c n show ?thesis
    by (intro conjI)
qed

text \<open>
  C9, amended: the bootstrap of \<^verbatim>\<open>src/pages/_app.js\<close>, run in a process with an empty
  module cache, registers entries for exactly the five identifiers rust, go, c, asm6502
  and nasm: the keys of the registry afterwards are the keys it had before and these
  five, and every other key, bash among them, has the entry it had before, or none. In
  particular the shell registers no entry for bash: bash is in the registry afterwards
  exactly when the engine shipped it.
\<close>

theorem pages_app_registers_exactly_five:
  assumes "pages_app_top_level st = Inr st'" and "loaded st = {}"
  shows "dom (languages st') = dom (languages st) \<union> {''rust'', ''go'', ''c'', ''asm6502'', ''nasm''}
       \<and> (\<forall>k. k \<notin> {''rust'', ''go'', ''c'', ''asm6502'', ''nasm''} \<longrightarrow>
              languages st' k = languages st k)
       \<and> languages st' ''bash'' = languages st ''bash''
       \<and> (''bash'' \<in> dom (languages st') \<longleftrightarrow> ''bash'' \<in> dom (languages st))"
proof -
  have r: "languages st' = registered pages_app_grammars (languages st)"
    using bootstrap_languages [OF _ cache_consistent_fresh [OF assms(2)]] assms(1)
    by (simp add: pages_app_top_level_def)
  then have "dom (languages st') = dom (languages st) \<union> set pages_app_grammars"
    by (simp add: dom_registered)
  moreover have "\<forall>k. k \<notin> set pages_app_grammars \<longrightarrow> languages st' k = languages st k"
    by (simp add: r registered_def)
  ultimately show ?thesis
    by (auto simp: pages_app_grammars_def)
qed

theorem pages_app_registers_exactly_five_witness:
  "pages_app_top_level shipped_server = Inr (projr (pages_app_top_level shipped_server))
   \<and> loaded shipped_server = {}
   \<and> dom (languages shipped_server) = {''bash'', ''c'', ''clike'', ''go''}
   \<and> dom (languages (projr (pages_app_top_level shipped_server)))
       = {''bash'', ''c'', ''clike'', ''go''} \<union> {''rust'', ''go'', ''c'', ''asm6502'', ''nasm''}
   \<and> languages (projr (pages_app_top_level shipped_server)) ''clike''
       = languages shipped_server ''clike''
   \<and> languages (projr (pages_app_top_level shipped_server)) ''bash''
       = languages shipped_server ''bash''"
proof -
  have h: "pages_app_top_level shipped_server
             = Inr (projr (pages_app_top_level shipped_server))"
    by (simp add: bootstrap_eval)
  have l: "loaded shipped_server = {}"
    by (simp add: shipped_server_def fresh_process_def)
  have d: "dom (languages shipped_server) = {''bash'', ''c'', ''clike'', ''go''}"
    by (auto simp: shipped_server_def shipped_languages_def fresh_process_def)
  note t = pages_app_registers_exactly_five [OF h l]
  from t d have c1: "dom (languages (projr (pages_app_top_level shipped_server)))
       = {''bash'', ''c'', ''clike'', ''go''} \<union> {''rust'', ''go'', ''c'', ''asm6502'', ''nasm''}"
    by simp
  from t have c2: "languages (projr (pages_app_top_level shipped_server)) ''clike''
       = languages shipped_server ''clike''"
    by simp
  from t have c3: "languages (projr (pages_app_top_level shipped_server)) ''bash''
       = languages shipped_server ''bash''"
    by blast
  from h l d c1 c2 c3 show ?thesis
    by blast
qed

text \<open>
  C10, as the claim states it: for every props record the render function returns the
  page component with those props, none added, removed or modified. Element creation
  takes the reserved names out of the props: for a props object with a title and a key,
  the element that \<^verbatim>\<open>Nextra\<close> returns has the title as its only prop, the key being
  the key of the element, and the component renders no key, where it would have rendered
  one from the props as given.
\<close>

theorem Nextra_drops_reserved_props:
  "Nextra_pages_app \<lparr>Component = title_page, pageProps = keyed_props\<rparr>
     = ComponentElement title_page [''title'' \<mapsto> JSString ''Rust Generics'']
         (Some (JSString ''k1'')) None
   \<and> rendered_output (Nextra_pages_app \<lparr>Component = title_page, pageProps = keyed_props\<rparr>)
       = [Some (JSString ''Rust Generics''), None]
   \<and> rendered_output (Nextra_part_002 \<lparr>Component = title_page, pageProps = keyed_props\<rparr>)
       = [Some (JSString ''Rust Generics''), None]
   \<and> title_page keyed_props = [Some (JSString ''Rust Generics''), Some (JSString ''k1'')]"
proof -
  have q: "(\<lambda>name. if name \<in> set reserved_props then None else keyed_props name)
          = [''title'' \<mapsto> JSString ''Rust Generics'']"
    by (auto simp: reserved_props_def keyed_props_def)
  have k: "keyed_props ''key'' = Some (JSString ''k1'')"
    and r: "keyed_props ''ref'' = None"
    and t: "keyed_props ''title'' = Some (JSString ''Rust Generics'')"
    by (simp_all add: keyed_props_def)
  have e: "createElement title_page keyed_props
             = ComponentElement title_page [''title'' \<mapsto> JSString ''Rust Generics'']
                 (Some (JSString ''k1'')) None"
    by (simp only: createElement_props q k r)
  have o: "title_page [''title'' \<mapsto> JSString ''Rust Generics'']
             = [Some (JSString ''Rust Generics''), None]"
    by (simp add: title_page_def)
  have o': "title_page keyed_props = [Some (JSString ''Rust Generics''), Some (JSString ''k1'')]"
    by (simp add: title_page_def k t)
  show ?thesis
    by (simp add: Nextra_pages_app_def Nextra_part_002_def e o o')
qed

text \<open>
  C10, amended: for every page component and every props record, the render function of
  \<^verbatim>\<open>src/pages/_app.js\<close> returns the element of that component, and the one of
  \<^verbatim>\<open>src/unnamed/part_002\<close> the same element inside a fragment. The props of the
  element are the given ones with every property unchanged, except that the properties
  named key, ref, __self and __source are not among them: no prop is added, none is
  modified, and a props record without these four names is passed as it is. The key and
  the ref of the element are the ones given. Either way the rendered output is what the
  component renders from the props of the element, and nothing else.
\<close>

theorem Nextra_renders_component_with_props:
  "\<exists>q. Nextra_pages_app \<lparr>Component = c, pageProps = p\<rparr>
          = ComponentElement c q (p ''key'') (p ''ref'')
     \<and> Nextra_part_002 \<lparr>Component = c, pageProps = p\<rparr>
          = Fragment [ComponentElement c q (p ''key'') (p ''ref'')]
     \<and> (\<forall>name. name \<notin> {''key'', ''ref'', ''__self'', ''__source''} \<longrightarrow> q name = p name)
     \<and> (\<forall>name. name \<in> {''key'', ''ref'', ''__self'', ''__source''} \<longrightarrow> q name = None)
     \<and> dom q \<subseteq> dom p
     \<and> (dom p \<inter> {''key'', ''ref'', ''__self'', ''__source''} = {} \<longrightarrow> q = p)
     \<and> rendered_output (Nextra_pages_app \<lparr>Component = c, pageProps = p\<rparr>) = c q
     \<and> rendered_output (Nextra_part_002 \<lparr>Component = c, pageProps = p\<rparr>) = c q"
proof -
  let ?R = "{''key'', ''ref'', ''__self'', ''__source''}"
  define q where "q = (\<lambda>name. if name \<in> set reserved_props then None else p name)"
  have q_app: "q name = (if name \<in> ?R then None else p name)" for name
    unfolding q_def reserved_props_set ..
  have e: "createElement c p = ComponentElement c q (p ''key'') (p ''ref'')"
    by (simp only: createElement_props q_def)
  have 1: "Nextra_pages_app \<lparr>Component = c, pageProps = p\<rparr>
             = ComponentElement c q (p ''key'') (p ''ref'')"
    by (simp add: Nextra_pages_app_def e)
  have 2: "Nextra_part_002 \<lparr>Component = c, pageProps = p\<rparr>
             = Fragment [ComponentElement c q (p ''key'') (p ''ref'')]"
    by (simp add: Nextra_part_002_def e)
  have 3: "\<forall>name. name \<notin> ?R \<longrightarrow> q name = p name"
    by (simp only: q_app if_not_P) simp
  have 4: "\<forall>name. name \<in> ?R \<longrightarrow> q name = None"
    by (simp only: q_app if_P) simp
  have 5: "dom q \<subseteq> dom p"
  proof
    fix name assume "name \<in> dom q"
    then obtain v where v: "q name = Some v" by blast
    have "p name = Some v"
    proof (cases "name \<in> ?R")
      case True
      have "q name = None"
        using q_app [of name] by (simp only: if_P [OF True])
      with v show ?thesis by simp
    next
      case False
      have "q name = p name"
        using q_app [of name] by (simp only: if_not_P [OF False])
      with v show ?thesis by simp
    qed
    then show "name \<in> dom p" by (rule domI)
  qed
  have 6: "dom p \<inter> ?R = {} \<longrightarrow> q = p"
  proof
    assume d: "dom p \<inter> ?R = {}"
    show "q = p"
    proof
      fix name
      show "q name = p name"
      proof (cases "name \<in> ?R")
        case True
        with d have "name \<notin> dom p" by blast
        then have "p name = None" by (simp only: domIff not_not)
        moreover have "q name = None"
          using q_app [of name] by (simp only: if_P [OF True])
        ultimately show ?thesis by simp
      next
        case False
        show ?thesis
          using q_app [of name] by (simp only: if_not_P [OF False])
      qed
    qed
  qed
  have 7: "rendered_output (Nextra_pages_app \<lparr>Component = c, pageProps = p\<rparr>) = c q"
    by (simp only: 1 rendered_output.simps)
  have 8: "rendered_output (Nextra_part_002 \<lparr>Component = c, pageProps = p\<rparr>) = c q"
    by (simp add: 2)
  from 1 2 3 4 5 6 7 8 show ?thesis
    by (intro exI [of _ q] conjI)
qed

theorem Nextra_renders_component_with_props_witness:
  "dom [''title'' \<mapsto> JSString ''Rust Generics'']
       \<inter> {''key'', ''ref'', ''__self'', ''__source''} = {}
   \<and> Nextra_pages_app
         \<lparr>Component = title_page, pageProps = [''title'' \<mapsto> JSString ''Rust Generics'']\<rparr>
       = ComponentElement title_page [''title'' \<mapsto> JSString ''Rust Generics''] None None
   \<and> rendered_output (Nextra_part_002
         \<lparr>Component = title_page, pageProps = [''title'' \<mapsto> JSString ''Rust Generics'']\<rparr>)
       = title_page [''title'' \<mapsto> JSString ''Rust Generics'']"
proof -
  let ?p = "[''title'' \<mapsto> JSString ''Rust Generics'']"
  have d: "dom ?p \<inter> {''key'', ''ref'', ''__self'', ''__source''} = {}"
    by simp
  have k: "?p ''key'' = None" and r: "?p ''ref'' = None"
    by simp_all
  from Nextra_renders_component_with_props [of title_page ?p]
  obtain q where e: "Nextra_pages_app \<lparr>Component = title_page, pageProps = ?p\<rparr>
          = ComponentElement title_page q (?p ''key'') (?p ''ref'')"
    and s: "dom ?p \<inter> {''key'', ''ref'', ''__self'', ''__source''} = {} \<longrightarrow> q = ?p"
    and o: "rendered_output (Nextra_part_002 \<lparr>Component = title_page, pageProps = ?p\<rparr>)
          = title_page q"
    by (elim exE conjE) (rule that)
  from s d have qp: "q = ?p" by (rule mp)
  have e': "Nextra_pages_app \<lparr>Component = title_page, pageProps = ?p\<rparr>
          = ComponentElement title_page ?p None None"
    using e by (simp only: qp k r)
  have o': "rendered_output (Nextra_part_002 \<lparr>Component = title_page, pageProps = ?p\<rparr>)
          = title_page ?p"
    using o by (simp only: qp)
  from d e' o' show ?thesis
    by (intro conjI)
qed

end
